theory Spec2Isabelle
  imports Main "HOL-Library.Log_Nat"
begin

section \<open>Python values used by \<open>create_powerpoint.py\<close>\<close>

subsection \<open>Strings\<close>

text \<open>
  A Python \<open>str\<close> is modelled as a \<open>string\<close> holding the UTF-8 bytes that the literal
  has in the source file. The script never measures or indexes a string, it only
  concatenates them and hands them to the library, so nothing below depends on the
  difference between bytes and code points. Every character of the script outside ASCII
  gets a constant named after its code point.
\<close>

definition U_2022 :: string where \<comment> \<open>bullet\<close>
  "U_2022 = [CHR 0xE2, CHR 0x80, CHR 0xA2]"

definition U_2192 :: string where \<comment> \<open>rightwards arrow\<close>
  "U_2192 = [CHR 0xE2, CHR 0x86, CHR 0x92]"

definition U_2500 :: string where \<comment> \<open>box drawings light horizontal\<close>
  "U_2500 = [CHR 0xE2, CHR 0x94, CHR 0x80]"

definition U_2502 :: string where \<comment> \<open>box drawings light vertical\<close>
  "U_2502 = [CHR 0xE2, CHR 0x94, CHR 0x82]"

definition U_250C :: string where \<comment> \<open>box drawings light down and right\<close>
  "U_250C = [CHR 0xE2, CHR 0x94, CHR 0x8C]"

definition U_2510 :: string where \<comment> \<open>box drawings light down and left\<close>
  "U_2510 = [CHR 0xE2, CHR 0x94, CHR 0x90]"

definition U_2514 :: string where \<comment> \<open>box drawings light up and right\<close>
  "U_2514 = [CHR 0xE2, CHR 0x94, CHR 0x94]"

definition U_2518 :: string where \<comment> \<open>box drawings light up and left\<close>
  "U_2518 = [CHR 0xE2, CHR 0x94, CHR 0x98]"

definition U_2705 :: string where \<comment> \<open>white heavy check mark\<close>
  "U_2705 = [CHR 0xE2, CHR 0x9C, CHR 0x85]"

definition U_274C :: string where \<comment> \<open>cross mark\<close>
  "U_274C = [CHR 0xE2, CHR 0x9D, CHR 0x8C]"

definition U_1F3AF :: string where \<comment> \<open>direct hit\<close>
  "U_1F3AF = [CHR 0xF0, CHR 0x9F, CHR 0x8E, CHR 0xAF]"

definition U_1F4CA :: string where \<comment> \<open>bar chart\<close>
  "U_1F4CA = [CHR 0xF0, CHR 0x9F, CHR 0x93, CHR 0x8A]"

definition U_1F4E6 :: string where \<comment> \<open>package\<close>
  "U_1F4E6 = [CHR 0xF0, CHR 0x9F, CHR 0x93, CHR 0xA6]"

definition U_1F504 :: string where \<comment> \<open>anticlockwise downwards and upwards open circle arrows\<close>
  "U_1F504 = [CHR 0xF0, CHR 0x9F, CHR 0x94, CHR 0x84]"

definition rep :: "nat \<Rightarrow> string \<Rightarrow> string" where
  \<comment> \<open>a run of \<open>n\<close> copies of one character, as it stands written out in a literal\<close>
  "rep n s = concat (replicate n s)"

definition newline :: char where
  "newline = CHR 0x0A"

fun split_lines :: "string \<Rightarrow> string list" where
  \<comment> \<open>\<open>s.split("\n")\<close>: never empty, one more piece than there are line feeds\<close>
  "split_lines [] = [[]]"
| "split_lines (c # cs) =
     (if c = newline then [] # split_lines cs
      else (case split_lines cs of
              [] \<Rightarrow> [[c]]
            | l # ls \<Rightarrow> (c # l) # ls))"

fun join_lines :: "string list \<Rightarrow> string" where
  \<comment> \<open>the lines of a triple-quoted literal, with the line feeds between them\<close>
  "join_lines [] = []"
| "join_lines [l] = l"
| "join_lines (l # ls) = l @ newline # join_lines ls"

subsection \<open>Lengths\<close>

text \<open>
  \<open>pptx.util.Inches(x)\<close> is \<open>int(x * 914400)\<close> and \<open>Pt(n)\<close> is \<open>int(n * 12700)\<close>,
  both in English Metric Units. Where \<open>x\<close> is a float literal the product is a
  binary64 product: the literal is rounded to the nearest double, the product is rounded
  again, and \<open>int\<close> truncates towards zero. The rounding is written out on rationals, for
  magnitudes in the normal range of the format (all lengths here lie between a half and
  sixteen million). An integer argument takes the same path unchanged: integers of this size are
  doubles, and so is their product with 914400.
\<close>

definition pow2 :: "int \<Rightarrow> rat" where
  "pow2 e = (if 0 \<le> e then 2 ^ nat e else 1 / 2 ^ nat (- e))"

definition ilog2 :: "rat \<Rightarrow> int" where
  \<comment> \<open>the exponent \<open>e\<close> with \<open>pow2 e \<le> q < pow2 (e + 1)\<close>, for positive \<open>q\<close>\<close>
  "ilog2 q = (let (n, d) = quotient_of q; k = bitlen n - bitlen d
              in if pow2 k \<le> q then k else k - 1)"

definition round_half_even :: "rat \<Rightarrow> int" where
  "round_half_even q =
     (let f = \<lfloor>q\<rfloor>; r = q - of_int f
      in if r < 1 / 2 then f
         else if 1 / 2 < r then f + 1
         else if even f then f else f + 1)"

definition binary64 :: "rat \<Rightarrow> rat" where
  \<comment> \<open>the double nearest to \<open>q\<close>: 53 significant bits, ties to even\<close>
  "binary64 q =
     (if q = 0 then 0
      else let ulp = pow2 (ilog2 \<bar>q\<bar> - 52)
           in sgn q * of_int (round_half_even (\<bar>q\<bar> / ulp)) * ulp)"

definition py_int :: "rat \<Rightarrow> int" where
  \<comment> \<open>\<open>int(x)\<close> on a float truncates towards zero\<close>
  "py_int q = (if 0 \<le> q then \<lfloor>q\<rfloor> else \<lceil>q\<rceil>)"

definition Inches :: "rat \<Rightarrow> int" where
  "Inches inches = py_int (binary64 (binary64 inches * 914400))"

definition Pt :: "int \<Rightarrow> int" where
  "Pt points = points * 12700"

section \<open>The objects of python-pptx that the script touches\<close>

text \<open>
  The library is not part of the repository. What follows records, for each object the
  script reads or writes, the attributes it sets, and for each call what the library's
  documentation says it does to them.
\<close>

datatype RGBColor = RGBColor nat nat nat

datatype PP_ALIGN = LEFT | CENTER | RIGHT | JUSTIFY

datatype MSO_SHAPE = RECTANGLE | OVAL | ROUNDED_RECTANGLE

datatype shape_kind = AutoShape MSO_SHAPE | TextBox

datatype fill_format =
    Inherited \<comment> \<open>nothing set on the shape: the theme decides\<close>
  | Solid "RGBColor option" \<comment> \<open>after \<open>solid()\<close>, with the colour once it is set\<close>
  | Background \<comment> \<open>after \<open>background()\<close>: no fill, so a line with it is not drawn\<close>

record para =
  para_text :: string
  alignment :: "PP_ALIGN option"
  font_size :: "int option"
  font_color :: "RGBColor option"
  font_bold :: "bool option"
  font_name :: "string option"
  space_before :: "int option"

record shape =
  kind :: shape_kind
  shape_left :: int
  shape_top :: int
  shape_width :: int
  shape_height :: int
  fill :: fill_format
  line_fill :: fill_format
  paragraphs :: "para list"

record slide =
  layout :: nat \<comment> \<open>index into \<open>prs.slide_layouts\<close>\<close>
  shapes :: "shape list" \<comment> \<open>in insertion order\<close>

record deck =
  slide_width :: int
  slide_height :: int
  slides :: "slide list"

definition Presentation :: deck where
  \<comment> \<open>the library's default template: a 4:3 canvas, eleven layouts, no slide\<close>
  "Presentation = \<lparr>slide_width = 9144000, slide_height = 6858000, slides = []\<rparr>"

definition new_para :: para where
  "new_para = \<lparr>para_text = [], alignment = None, font_size = None, font_color = None,
     font_bold = None, font_name = None, space_before = None\<rparr>"

definition add_shape :: "MSO_SHAPE \<Rightarrow> int \<Rightarrow> int \<Rightarrow> int \<Rightarrow> int \<Rightarrow> shape" where
  "add_shape t l tp w h = \<lparr>kind = AutoShape t, shape_left = l, shape_top = tp,
     shape_width = w, shape_height = h, fill = Inherited, line_fill = Inherited,
     paragraphs = [new_para]\<rparr>"

definition add_textbox :: "int \<Rightarrow> int \<Rightarrow> int \<Rightarrow> int \<Rightarrow> shape" where
  "add_textbox l tp w h = \<lparr>kind = TextBox, shape_left = l, shape_top = tp,
     shape_width = w, shape_height = h, fill = Inherited, line_fill = Inherited,
     paragraphs = [new_para]\<rparr>"

definition fill_solid :: "shape \<Rightarrow> shape" where
  "fill_solid s = s\<lparr>fill := Solid None\<rparr>"

definition fill_fore_color_rgb :: "RGBColor \<Rightarrow> shape \<Rightarrow> shape" where
  \<comment> \<open>the library raises TypeError on a fill that is not solid; the script sets the
      colour only right after \<open>solid()\<close>\<close>
  "fill_fore_color_rgb c s = (case fill s of Solid _ \<Rightarrow> s\<lparr>fill := Solid (Some c)\<rparr> | _ \<Rightarrow> s)"

definition line_fill_background :: "shape \<Rightarrow> shape" where
  "line_fill_background s = s\<lparr>line_fill := Background\<rparr>"

definition set_text :: "string \<Rightarrow> shape \<Rightarrow> shape" where
  \<comment> \<open>\<open>text_frame.text = s\<close>: the frame's paragraphs are replaced by one fresh
      paragraph for each line of \<open>s\<close>\<close>
  "set_text s sh = sh\<lparr>paragraphs := map (\<lambda>l. new_para\<lparr>para_text := l\<rparr>) (split_lines s)\<rparr>"

definition on_first :: "(para \<Rightarrow> para) \<Rightarrow> shape \<Rightarrow> shape" where
  \<comment> \<open>attribute assignments through \<open>text_frame.paragraphs[0]\<close>; a text frame always
      has a first paragraph\<close>
  "on_first f sh = (case paragraphs sh of [] \<Rightarrow> sh | p # ps \<Rightarrow> sh\<lparr>paragraphs := f p # ps\<rparr>)"

definition add_paragraph :: "shape \<Rightarrow> shape" where
  "add_paragraph sh = sh\<lparr>paragraphs := paragraphs sh @ [new_para]\<rparr>"

definition on_last :: "(para \<Rightarrow> para) \<Rightarrow> shape \<Rightarrow> shape" where
  \<comment> \<open>attribute assignments through the \<open>p\<close> that \<open>add_paragraph()\<close> just returned\<close>
  "on_last f sh = (case rev (paragraphs sh) of [] \<Rightarrow> sh
                   | p # ps \<Rightarrow> sh\<lparr>paragraphs := rev ps @ [f p]\<rparr>)"

definition add_slide :: "nat \<Rightarrow> shape list \<Rightarrow> deck \<Rightarrow> deck" where
  \<comment> \<open>\<open>prs.slides.add_slide(prs.slide_layouts[i])\<close> together with the shapes then put on
      the new slide; the blank layout brings no shape of its own\<close>
  "add_slide i shs prs = prs\<lparr>slides := slides prs @ [\<lparr>layout = i, shapes = shs\<rparr>]\<rparr>"

section \<open>\<open>create_presentation\<close>: the five slides\<close>

text \<open>
  The script creates each shape, sets its attributes through the reference it holds, and
  only then creates the next one; the model builds each shape in the same order of
  assignments and lists the shapes of a slide in the order of their creation.
\<close>

definition BLUE :: RGBColor where "BLUE = RGBColor 102 126 234"
definition PURPLE :: RGBColor where "PURPLE = RGBColor 118 75 162"
definition GOLD :: RGBColor where "GOLD = RGBColor 255 215 0"
definition GREEN :: RGBColor where "GREEN = RGBColor 144 238 144"
definition WHITE :: RGBColor where "WHITE = RGBColor 255 255 255"

definition canvas :: "deck \<Rightarrow> deck" where
  \<comment> \<open>\<open>prs.slide_width = Inches(13.33)\<close>, \<open>prs.slide_height = Inches(7.5)\<close>\<close>
  "canvas prs = prs\<lparr>slide_width := Inches 13.33, slide_height := Inches 7.5\<rparr>"

definition slide1 :: "deck \<Rightarrow> deck" where
  "slide1 prs =
    (let background = add_shape RECTANGLE 0 0 (slide_width prs) (slide_height prs);
         background = fill_solid background;
         background = fill_fore_color_rgb BLUE background;
         background = line_fill_background background;
         title_box = add_textbox (Inches 1) (Inches 2) (Inches 11.33) (Inches 1.5);
         title_box = set_text ''Agentic Workflow Reviewer'' title_box;
         title_box = on_first (\<lambda>p. p\<lparr>alignment := Some CENTER, font_size := Some (Pt 48),
                       font_color := Some WHITE, font_bold := Some True\<rparr>) title_box;
         subtitle_box = add_textbox (Inches 1) (Inches 3.5) (Inches 11.33) (Inches 1);
         subtitle_box = set_text ''AI-Powered Multi-Agent Workflow Analysis & Optimization''
                          subtitle_box;
         subtitle_box = on_first (\<lambda>p. p\<lparr>alignment := Some CENTER, font_size := Some (Pt 24),
                          font_color := Some WHITE\<rparr>) subtitle_box;
         kiro_box = add_textbox (Inches 1) (Inches 5) (Inches 11.33) (Inches 0.8);
         kiro_box = set_text ''Built with Kiro.dev'' kiro_box;
         kiro_box = on_first (\<lambda>p. p\<lparr>alignment := Some CENTER, font_size := Some (Pt 20),
                      font_color := Some GOLD\<rparr>) kiro_box;
         date_box = add_textbox (Inches 1) (Inches 6) (Inches 11.33) (Inches 0.5);
         date_box = set_text (''Kiro Hackathon '' @ U_2022 @ '' January 2026'') date_box;
         date_box = on_first (\<lambda>p. p\<lparr>alignment := Some CENTER, font_size := Some (Pt 16),
                      font_color := Some WHITE\<rparr>) date_box
     in add_slide 6 [background, title_box, subtitle_box, kiro_box, date_box] prs)"

definition challenges :: "string list" where
  "challenges =
    [''DevOps teams struggle with complex workflow optimization'',
     ''Manual review processes are time-consuming and error-prone'',
     ''Different optimization goals require different expertise'',
     ''No unified system for comprehensive workflow analysis'']"

definition solutions :: "string list" where
  "solutions =
    [''Decomposition: Complex analysis '' @ U_2192 @ '' specialized agents'',
     ''Expertise: Each agent focuses on domain knowledge'',
     ''Scalability: Parallel processing + intelligent caching'',
     ''Human-in-the-loop: Interactive goal changes'']"

definition slide2 :: "deck \<Rightarrow> deck" where
  "slide2 prs =
    (let bg2 = add_shape RECTANGLE 0 0 (slide_width prs) (slide_height prs);
         bg2 = fill_solid bg2;
         bg2 = fill_fore_color_rgb BLUE bg2;
         bg2 = line_fill_background bg2;
         title2_box = add_textbox (Inches 0.5) (Inches 0.5) (Inches 12.33) (Inches 1);
         title2_box = set_text ''Problem Statement & Vision'' title2_box;
         title2_box = on_first (\<lambda>p. p\<lparr>font_size := Some (Pt 36), font_color := Some GOLD,
                        font_bold := Some True\<rparr>) title2_box;
         challenge_box = add_textbox (Inches 0.5) (Inches 1.5) (Inches 6) (Inches 3);
         challenge_box = set_text ''The Challenge'' challenge_box;
         challenge_box = on_first (\<lambda>p. p\<lparr>font_size := Some (Pt 24), font_color := Some GREEN,
                           font_bold := Some True\<rparr>) challenge_box;
         challenge_box =
           foldl (\<lambda>frame challenge.
                    on_last (\<lambda>p. p\<lparr>para_text := U_2022 @ '' '' @ challenge,
                               font_size := Some (Pt 16), font_color := Some WHITE,
                               space_before := Some (Pt 6)\<rparr>)
                      (add_paragraph frame))
             challenge_box challenges;
         solution_box = add_textbox (Inches 6.5) (Inches 1.5) (Inches 6) (Inches 3);
         solution_box = set_text ''Why Agents + Kiro?'' solution_box;
         solution_box = on_first (\<lambda>p. p\<lparr>font_size := Some (Pt 24), font_color := Some GREEN,
                          font_bold := Some True\<rparr>) solution_box;
         solution_box =
           foldl (\<lambda>frame solution.
                    on_last (\<lambda>p. p\<lparr>para_text := U_2022 @ '' '' @ solution,
                               font_size := Some (Pt 16), font_color := Some WHITE,
                               space_before := Some (Pt 6)\<rparr>)
                      (add_paragraph frame))
             solution_box solutions
     in add_slide 6 [bg2, title2_box, challenge_box, solution_box] prs)"

definition architecture_text :: string where
  "architecture_text = join_lines
    [U_250C @ rep 61 U_2500 @ U_2510,
     U_2502 @ ''                    Web Interface Layer '' @ U_2705 @ ''                   '' @ U_2502,
     U_2502 @ ''  '' @ U_250C @ rep 17 U_2500 @ U_2510 @ ''  '' @ U_250C @ rep 17 U_2500 @ U_2510 @ ''  '' @ U_250C @ rep 13 U_2500 @ U_2510 @ '' '' @ U_2502,
     U_2502 @ ''  '' @ U_2502 @ ''   Input Form    '' @ U_2502 @ ''  '' @ U_2502 @ ''  Results View   '' @ U_2502 @ ''  '' @ U_2502 @ '' Goal Selector'' @ U_2502 @ '' '' @ U_2502,
     U_2502 @ ''  '' @ U_2502 @ ''  (Implemented)  '' @ U_2502 @ ''  '' @ U_2502 @ ''  (Implemented)  '' @ U_2502 @ ''  '' @ U_2502 @ '' (Implemented)'' @ U_2502 @ '' '' @ U_2502,
     U_2502 @ ''  '' @ U_2514 @ rep 17 U_2500 @ U_2518 @ ''  '' @ U_2514 @ rep 17 U_2500 @ U_2518 @ ''  '' @ U_2514 @ rep 13 U_2500 @ U_2518 @ '' '' @ U_2502,
     U_2514 @ rep 61 U_2500 @ U_2518,
     ''                                '' @ U_2502,
     U_250C @ rep 61 U_2500 @ U_2510,
     U_2502 @ ''                 Agent Orchestration Layer '' @ U_2705 @ ''                '' @ U_2502,
     U_2502 @ ''  '' @ U_250C @ rep 17 U_2500 @ U_2510 @ ''  '' @ U_250C @ rep 17 U_2500 @ U_2510 @ ''  '' @ U_250C @ rep 13 U_2500 @ U_2510 @ '' '' @ U_2502,
     U_2502 @ ''  '' @ U_2502 @ '' Analysis Engine '' @ U_2502 @ ''  '' @ U_2502 @ ''  Goal Context   '' @ U_2502 @ ''  '' @ U_2502 @ '' Result Cache'' @ U_2502 @ '' '' @ U_2502,
     U_2502 @ ''  '' @ U_2502 @ ''  (Implemented)  '' @ U_2502 @ ''  '' @ U_2502 @ ''  (Implemented)  '' @ U_2502 @ ''  '' @ U_2502 @ '' (Implemented)'' @ U_2502 @ '' '' @ U_2502,
     U_2502 @ ''  '' @ U_2514 @ rep 17 U_2500 @ U_2518 @ ''  '' @ U_2514 @ rep 17 U_2500 @ U_2518 @ ''  '' @ U_2514 @ rep 13 U_2500 @ U_2518 @ '' '' @ U_2502,
     U_2514 @ rep 61 U_2500 @ U_2518,
     ''                                '' @ U_2502,
     U_250C @ rep 61 U_2500 @ U_2510,
     U_2502 @ ''                    Agent Processing Layer '' @ U_2705 @ ''                '' @ U_2502,
     U_2502 @ ''  '' @ U_250C @ rep 13 U_2500 @ U_2510 @ '' '' @ U_250C @ rep 13 U_2500 @ U_2510 @ '' '' @ U_250C @ rep 13 U_2500 @ U_2510 @ '' '' @ U_250C @ rep 9 U_2500 @ U_2510 @ U_2502,
     U_2502 @ ''  '' @ U_2502 @ ''Parser Agent '' @ U_2502 @ '' '' @ U_2502 @ ''Risk Analyzer'' @ U_2502 @ '' '' @ U_2502 @ ''Optimization '' @ U_2502 @ '' '' @ U_2502 @ '' Critic  '' @ rep 2 U_2502,
     U_2502 @ ''  '' @ U_2502 @ ''(Implemented)'' @ U_2502 @ '' '' @ U_2502 @ ''(Implemented)'' @ U_2502 @ '' '' @ U_2502 @ ''(Implemented)'' @ U_2502 @ '' '' @ U_2502 @ ''(Impl.)  '' @ rep 2 U_2502,
     U_2502 @ ''  '' @ U_2514 @ rep 13 U_2500 @ U_2518 @ '' '' @ U_2514 @ rep 13 U_2500 @ U_2518 @ '' '' @ U_2514 @ rep 13 U_2500 @ U_2518 @ '' '' @ U_2514 @ rep 9 U_2500 @ U_2518 @ U_2502,
     U_2514 @ rep 61 U_2500 @ U_2518]"

definition slide3 :: "deck \<Rightarrow> deck" where
  "slide3 prs =
    (let bg3 = add_shape RECTANGLE 0 0 (slide_width prs) (slide_height prs);
         bg3 = fill_solid bg3;
         bg3 = fill_fore_color_rgb BLUE bg3;
         bg3 = line_fill_background bg3;
         title3_box = add_textbox (Inches 0.5) (Inches 0.5) (Inches 12.33) (Inches 1);
         title3_box = set_text ''Multi-Agent System Architecture'' title3_box;
         title3_box = on_first (\<lambda>p. p\<lparr>font_size := Some (Pt 36), font_color := Some GOLD,
                        font_bold := Some True\<rparr>) title3_box;
         arch_box = add_textbox (Inches 1) (Inches 1.5) (Inches 11.33) (Inches 5.5);
         arch_box = set_text architecture_text arch_box;
         arch_box = on_first (\<lambda>p. p\<lparr>font_name := Some ''Courier New'',
                      font_size := Some (Pt 11), font_color := Some WHITE\<rparr>) arch_box
     in add_slide 6 [bg3, title3_box, arch_box] prs)"

definition features :: "(string \<times> string list) list" where
  "features =
    [(''Specs & Requirements'',
        [''Formal requirements.md, design.md, tasks.md'',
         ''Property-based testing specifications'',
         ''Incremental development tracking'']),
     (''Agent Orchestration'',
        [''4 specialized AI agents'',
         ''Sequential execution with data flow'',
         ''Error handling & graceful degradation'']),
     (''Workflow Automation'',
        [''Intelligent caching (2.8x performance)'',
         ''Goal-specific re-analysis'',
         ''Human-in-the-loop feedback'']),
     (''Development Tools'',
        [''TypeScript integration'',
         ''Jest + property-based testing'',
         ''Next.js + Mantine UI''])]"

definition positions :: "(rat \<times> rat) list" where
  "positions = [(0.5, 1.5), (6.5, 1.5), (0.5, 4), (6.5, 4)]"

definition slide4 :: "deck \<Rightarrow> deck" where
  \<comment> \<open>\<open>positions[i]\<close> is read for \<open>i\<close> below four only, the length of both lists\<close>
  "slide4 prs =
    (let bg4 = add_shape RECTANGLE 0 0 (slide_width prs) (slide_height prs);
         bg4 = fill_solid bg4;
         bg4 = fill_fore_color_rgb BLUE bg4;
         bg4 = line_fill_background bg4;
         title4_box = add_textbox (Inches 0.5) (Inches 0.5) (Inches 12.33) (Inches 1);
         title4_box = set_text ''Kiro Features Leveraged (30% of Grade)'' title4_box;
         title4_box = on_first (\<lambda>p. p\<lparr>font_size := Some (Pt 32), font_color := Some GOLD,
                        font_bold := Some True\<rparr>) title4_box;
         shapes4 =
           foldl (\<lambda>shs (i, feature_title, feature_items).
                    let (x, y) = positions ! i;
                        feature_box = add_textbox (Inches x) (Inches y) (Inches 6) (Inches 2.5);
                        feature_box = set_text (U_2705 @ '' '' @ feature_title) feature_box;
                        feature_box = on_first (\<lambda>p. p\<lparr>font_size := Some (Pt 18),
                                        font_color := Some GREEN, font_bold := Some True\<rparr>)
                                        feature_box;
                        feature_box =
                          foldl (\<lambda>frame item.
                                   on_last (\<lambda>p. p\<lparr>para_text := U_2022 @ '' '' @ item,
                                              font_size := Some (Pt 14),
                                              font_color := Some WHITE,
                                              space_before := Some (Pt 4)\<rparr>)
                                     (add_paragraph frame))
                            feature_box feature_items
                    in shs @ [feature_box])
             [bg4, title4_box] (enumerate 0 features)
     in add_slide 6 shapes4 prs)"

definition takeaways :: "string list" where
  "takeaways =
    [''Agentic Design: Multi-agent systems excel at complex analysis'',
     ''Kiro Integration: Specs + workflows + testing = robust development'',
     ''Performance Matters: Intelligent caching transforms UX'',
     ''Iterative Value: Goal-based re-analysis provides perspectives'']"

definition final_slide :: "deck \<Rightarrow> deck" where
  "final_slide prs =
    (let bg_final = add_shape RECTANGLE 0 0 (slide_width prs) (slide_height prs);
         bg_final = fill_solid bg_final;
         bg_final = fill_fore_color_rgb BLUE bg_final;
         bg_final = line_fill_background bg_final;
         final_title_box = add_textbox (Inches 1) (Inches 1.5) (Inches 11.33) (Inches 1.5);
         final_title_box = set_text ''Thank You & Q&A'' final_title_box;
         final_title_box = on_first (\<lambda>p. p\<lparr>alignment := Some CENTER,
                             font_size := Some (Pt 48), font_color := Some WHITE,
                             font_bold := Some True\<rparr>) final_title_box;
         takeaways_box = add_textbox (Inches 2) (Inches 3.5) (Inches 9.33) (Inches 2);
         takeaways_box = set_text ''Key Takeaways'' takeaways_box;
         takeaways_box = on_first (\<lambda>p. p\<lparr>alignment := Some CENTER,
                           font_size := Some (Pt 24), font_color := Some GREEN,
                           font_bold := Some True\<rparr>) takeaways_box;
         takeaways_box =
           foldl (\<lambda>frame takeaway.
                    on_last (\<lambda>p. p\<lparr>para_text := U_2022 @ '' '' @ takeaway,
                               font_size := Some (Pt 16), font_color := Some WHITE,
                               space_before := Some (Pt 6), alignment := Some CENTER\<rparr>)
                      (add_paragraph frame))
             takeaways_box takeaways;
         questions_box = add_textbox (Inches 1) (Inches 5.5) (Inches 11.33) (Inches 1);
         questions_box = set_text ''Questions & Discussion'' questions_box;
         questions_box = on_first (\<lambda>p. p\<lparr>alignment := Some CENTER,
                           font_size := Some (Pt 28), font_color := Some GOLD,
                           font_bold := Some True\<rparr>) questions_box
     in add_slide 6 [bg_final, final_title_box, takeaways_box, questions_box] prs)"

section \<open>Exceptions, the environment and the outside world\<close>

text \<open>
  An \<open>exn\<close> is an instance of a subclass of Python's \<open>Exception\<close>: its class and the
  text \<open>str(e)\<close>. \<open>ModuleNotFoundError\<close> is a subclass of \<open>ImportError\<close>, which is what
  the first handler of \<open>main\<close> matches.
\<close>

datatype exn_class =
    ImportError | ModuleNotFoundError | AttributeError | IndexError | KeyError
  | TypeError | ValueError | UnicodeEncodeError | OSError | PermissionError | RuntimeError

datatype exn = Exn exn_class string

fun str :: "exn \<Rightarrow> string" where
  "str (Exn c m) = m"

fun is_ImportError :: "exn \<Rightarrow> bool" where
  "is_ImportError (Exn c m) = (c = ImportError \<or> c = ModuleNotFoundError)"

text \<open>
  Any call into the library may raise. The environment says, for each stretch of
  \<open>create_presentation\<close> before the save, whether a library call in it raises and what;
  the deck under construction is local to the function, so an exception leaves nothing
  of it behind, and which call of the stretch raised cannot be observed. Saving opens
  the file for writing and then writes the package: it can fail before the file is
  touched, or after it was opened and truncated. \<open>print\<close> encodes the line for the
  standard output and writes it: where the stream cannot take the line (its encoding has
  no code for a character of it, as for the emoji on an ASCII or legacy console), the
  call raises and nothing of the line is written.
\<close>

datatype stage = Create | Slide1 | Slide2 | Slide3 | Slide4 | FinalSlide

datatype save_fault = SaveWorks | OpenFails exn | WriteFails exn

record env =
  pptx_installed :: bool \<comment> \<open>whether \<open>import pptx\<close> finds the package\<close>
  raises :: "stage \<Rightarrow> exn option"
  save_raises :: save_fault
  print_raises :: "string \<Rightarrow> exn option" \<comment> \<open>what \<open>print\<close> of a line raises, if anything\<close>

datatype file_content = Pptx deck | Truncated | Bytes string

record world =
  files :: "string \<rightharpoonup> file_content" \<comment> \<open>by path relative to the working directory\<close>
  stdout :: "string list" \<comment> \<open>the lines printed so far\<close>

definition py_print :: "env \<Rightarrow> string \<Rightarrow> world \<Rightarrow> (exn \<times> world) + world" where
  "py_print env l w =
     (case print_raises env l of
        Some e \<Rightarrow> Inl (e, w)
      | None \<Rightarrow> Inr (w\<lparr>stdout := stdout w @ [l]\<rparr>))"

definition and_then ::
  "(exn \<times> world) + world \<Rightarrow> (world \<Rightarrow> (exn \<times> world) + world) \<Rightarrow> (exn \<times> world) + world" where
  \<comment> \<open>the next statement runs only if the one before it returned\<close>
  "and_then r f = (case r of Inl ew \<Rightarrow> Inl ew | Inr w \<Rightarrow> f w)"

definition save :: "env \<Rightarrow> deck \<Rightarrow> string \<Rightarrow> world \<Rightarrow> (exn \<times> world) + world" where
  "save env prs path w =
     (case save_raises env of
        SaveWorks \<Rightarrow> Inr (w\<lparr>files := (files w)(path \<mapsto> Pptx prs)\<rparr>)
      | OpenFails e \<Rightarrow> Inl (e, w)
      | WriteFails e \<Rightarrow> Inl (e, w\<lparr>files := (files w)(path \<mapsto> Truncated)\<rparr>))"

section \<open>\<open>create_presentation\<close>, \<open>main\<close> and the script\<close>

definition stages :: "(stage \<times> (deck \<Rightarrow> deck)) list" where
  "stages = [(Create, canvas), (Slide1, slide1), (Slide2, slide2), (Slide3, slide3),
             (Slide4, slide4), (FinalSlide, final_slide)]"

fun run_stages :: "env \<Rightarrow> (stage \<times> (deck \<Rightarrow> deck)) list \<Rightarrow> deck \<Rightarrow> exn + deck" where
  "run_stages env [] prs = Inr prs"
| "run_stages env ((st, f) # rest) prs =
     (case raises env st of
        Some e \<Rightarrow> Inl e
      | None \<Rightarrow> run_stages env rest (f prs))"

definition build :: "env \<Rightarrow> exn + deck" where
  \<comment> \<open>lines 24 to 319: everything before the save\<close>
  "build env = run_stages env stages Presentation"

definition create_presentation :: "env \<Rightarrow> world \<Rightarrow> (exn \<times> world) + world" where
  "create_presentation env w =
     (case build env of
        Inl e \<Rightarrow> Inl (e, w)
      | Inr prs \<Rightarrow>
          and_then (save env prs ''Agentic_Workflow_Reviewer_Presentation.pptx'' w) (\<lambda>w.
          and_then (py_print env (U_2705 @ '' PowerPoint presentation created: Agentic_Workflow_Reviewer_Presentation.pptx'') w) (\<lambda>w.
          and_then (py_print env (U_1F4CA @ '' Slides created: Title, Problem Statement, Architecture, Kiro Features, Thank You'') w) (\<lambda>w.
          py_print env (U_1F3AF @ '' Ready for Kiro Hackathon presentation!'') w))))"

definition main :: "env \<Rightarrow> world \<Rightarrow> (exn \<times> world) + world" where
  \<comment> \<open>an exception raised inside a handler is not caught by the handlers of the same
      \<open>try\<close>: it leaves \<open>main\<close>\<close>
  "main env w =
     (case create_presentation env w of
        Inr w \<Rightarrow> Inr w
      | Inl (e, w) \<Rightarrow>
          if is_ImportError e then
            and_then (py_print env (U_274C @ '' Error: python-pptx library not found'') w) (\<lambda>w.
            and_then (py_print env (U_1F4E6 @ '' Install with: pip install python-pptx'') w) (\<lambda>w.
            py_print env (U_1F504 @ '' Then run: python create_powerpoint.py'') w))
          else py_print env (U_274C @ '' Error creating presentation: '' @ str e) w)"

text \<open>
  Running the file executes its statements in order: the imports of lines 13 to 18, the
  two \<open>def\<close>s, and the call of \<open>main\<close> under the \<open>__main__\<close> guard. An exception that
  no handler catches ends the run with a traceback on the error stream.
\<close>

datatype outcome = Finished world | Uncaught exn world

definition no_module_pptx :: exn where
  "no_module_pptx = Exn ModuleNotFoundError (''No module named '' @ [CHR 0x27] @ ''pptx'' @ [CHR 0x27])"

definition script :: "env \<Rightarrow> world \<Rightarrow> outcome" where
  "script env w =
     (if \<not> pptx_installed env then Uncaught no_module_pptx w
      else (case main env w of
              Inr w \<Rightarrow> Finished w
            | Inl (e, w) \<Rightarrow> Uncaught e w))"

section \<open>Reference runs\<close>

definition built_deck :: deck where
  \<comment> \<open>the deck as it stands before the save when nothing has raised\<close>
  "built_deck = final_slide (slide4 (slide3 (slide2 (slide1 (canvas Presentation)))))"

definition out_path :: string where
  "out_path = ''Agentic_Workflow_Reviewer_Presentation.pptx''"

definition success_lines :: "string list" where
  "success_lines =
    [U_2705 @ '' PowerPoint presentation created: Agentic_Workflow_Reviewer_Presentation.pptx'',
     U_1F4CA @ '' Slides created: Title, Problem Statement, Architecture, Kiro Features, Thank You'',
     U_1F3AF @ '' Ready for Kiro Hackathon presentation!'']"

definition good_env :: env where
  "good_env = \<lparr>pptx_installed = True, raises = (\<lambda>st. None), save_raises = SaveWorks,
     print_raises = (\<lambda>l. None)\<rparr>"

definition bare_env :: env where
  \<comment> \<open>a Python installation without python-pptx\<close>
  "bare_env = \<lparr>pptx_installed = False, raises = (\<lambda>st. None), save_raises = SaveWorks,
     print_raises = (\<lambda>l. None)\<rparr>"





definition empty_world :: world where
  "empty_world = \<lparr>files = Map.empty, stdout = []\<rparr>"

definition done_world :: world where
  "done_world = \<lparr>files = [out_path \<mapsto> Pptx built_deck], stdout = success_lines\<rparr>"

definition used_world :: world where
  \<comment> \<open>a working directory where an earlier run left a broken file behind\<close>
  "used_world = \<lparr>files = [out_path \<mapsto> Truncated, ''notes.txt'' \<mapsto> Bytes ''abc''],
     stdout = [''earlier output'']\<rparr>"

section \<open>Observations on a run\<close>

fun decimal :: "nat \<Rightarrow> string" where
  \<comment> \<open>\<open>str(n)\<close>\<close>
  "decimal n = (if n < 10 then [''0123456789'' ! n]
                else decimal (n div 10) @ [''0123456789'' ! (n mod 10)])"

declare decimal.simps [simp del]

fun starts_with :: "string \<Rightarrow> string \<Rightarrow> bool" where
  "starts_with s [] = True"
| "starts_with [] (p # ps) = False"
| "starts_with (c # cs) (p # ps) = (c = p \<and> starts_with cs ps)"

fun contains :: "string \<Rightarrow> string \<Rightarrow> bool" where
  \<comment> \<open>\<open>p in s\<close>\<close>
  "contains [] p = (p = [])"
| "contains (c # cs) p = (starts_with (c # cs) p \<or> contains cs p)"

definition prints_number :: "nat \<Rightarrow> string list \<Rightarrow> bool" where
  \<comment> \<open>some printed line shows the number\<close>
  "prints_number n out = list_ex (\<lambda>l. contains l (decimal n)) out"

definition shape_counts :: "deck \<Rightarrow> nat list" where
  "shape_counts prs = map (\<lambda>s. length (shapes s)) (slides prs)"

definition text_content :: "deck \<Rightarrow> string list list list" where
  \<comment> \<open>per slide, per shape, the text of every paragraph\<close>
  "text_content prs = map (\<lambda>s. map (\<lambda>sh. map para_text (paragraphs sh)) (shapes s)) (slides prs)"

section \<open>Facts about the model\<close>

subsection \<open>The lengths of the script\<close>

lemma Inches_values:
  "Inches 13.33 = 12188952" "Inches 7.5 = 6858000" "Inches 11.33 = 10360152"
  "Inches 12.33 = 11274552" "Inches 9.33 = 8531352" "Inches 0.5 = 457200"
  "Inches 1 = 914400" "Inches 1.5 = 1371600" "Inches 2 = 1828800" "Inches 2.5 = 2286000"
  "Inches 3 = 2743200" "Inches 3.5 = 3200400" "Inches 4 = 3657600" "Inches 5 = 4572000"
  "Inches 5.5 = 5029200" "Inches 6 = 5486400" "Inches 6.5 = 5943600" "Inches 0.8 = 731520"
  by code_simp+
lemmas Inches_simps = Inches_values [simplified]

lemma geometry_kept:
  "kind (fill_solid sh) = kind sh" "shape_left (fill_solid sh) = shape_left sh"
  "shape_top (fill_solid sh) = shape_top sh" "shape_width (fill_solid sh) = shape_width sh"
  "shape_height (fill_solid sh) = shape_height sh"
  "kind (fill_fore_color_rgb c sh) = kind sh" "shape_left (fill_fore_color_rgb c sh) = shape_left sh"
  "shape_top (fill_fore_color_rgb c sh) = shape_top sh" "shape_width (fill_fore_color_rgb c sh) = shape_width sh"
  "shape_height (fill_fore_color_rgb c sh) = shape_height sh"
  "kind (line_fill_background sh) = kind sh" "shape_left (line_fill_background sh) = shape_left sh"
  "shape_top (line_fill_background sh) = shape_top sh" "shape_width (line_fill_background sh) = shape_width sh"
  "shape_height (line_fill_background sh) = shape_height sh"
  "kind (set_text s sh) = kind sh" "shape_left (set_text s sh) = shape_left sh"
  "shape_top (set_text s sh) = shape_top sh" "shape_width (set_text s sh) = shape_width sh"
  "shape_height (set_text s sh) = shape_height sh"
  "kind (on_first f sh) = kind sh" "shape_left (on_first f sh) = shape_left sh"
  "shape_top (on_first f sh) = shape_top sh" "shape_width (on_first f sh) = shape_width sh"
  "shape_height (on_first f sh) = shape_height sh"
  "kind (add_paragraph sh) = kind sh" "shape_left (add_paragraph sh) = shape_left sh"
  "shape_top (add_paragraph sh) = shape_top sh" "shape_width (add_paragraph sh) = shape_width sh"
  "shape_height (add_paragraph sh) = shape_height sh"
  "kind (on_last f sh) = kind sh" "shape_left (on_last f sh) = shape_left sh"
  "shape_top (on_last f sh) = shape_top sh" "shape_width (on_last f sh) = shape_width sh"
  "shape_height (on_last f sh) = shape_height sh"
  by (simp_all add: fill_solid_def fill_fore_color_rgb_def line_fill_background_def set_text_def
        on_first_def add_paragraph_def on_last_def split: list.split fill_format.split)

lemma geometry_made:
  "kind (add_shape t l tp w h) = AutoShape t" "shape_left (add_shape t l tp w h) = l"
  "shape_top (add_shape t l tp w h) = tp" "shape_width (add_shape t l tp w h) = w"
  "shape_height (add_shape t l tp w h) = h"
  "kind (add_textbox l tp w h) = TextBox" "shape_left (add_textbox l tp w h) = l"
  "shape_top (add_textbox l tp w h) = tp" "shape_width (add_textbox l tp w h) = w"
  "shape_height (add_textbox l tp w h) = h"
  by (simp_all add: add_shape_def add_textbox_def)

lemmas build_defs = built_deck_def canvas_def Presentation_def slide1_def slide2_def slide3_def
  slide4_def final_slide_def add_slide_def Let_def

lemma counts: "shape_counts built_deck = [5, 4, 3, 6, 4]"
  by (simp add: shape_counts_def build_defs features_def positions_def)

lemma in_bounds:
  "\<forall>s \<in> set (slides built_deck). \<forall>sh \<in> set (shapes s).
     shape_left sh + shape_width sh \<le> slide_width built_deck \<and>
     shape_top sh + shape_height sh \<le> slide_height built_deck"
  by (simp add: build_defs features_def positions_def challenges_def solutions_def takeaways_def
        geometry_kept geometry_made Inches_simps)

lemma fills_made:
  "fill (line_fill_background (fill_fore_color_rgb c (fill_solid sh))) = Solid (Some c)"
  "line_fill (line_fill_background sh) = Background"
  by (simp_all add: fill_solid_def fill_fore_color_rgb_def line_fill_background_def)

lemma split_lines_plain: "newline \<notin> set s \<Longrightarrow> split_lines s = [s]"
  by (induction s) auto

lemma heading_paragraphs:
  "newline \<notin> set s \<Longrightarrow>
   map para_text (paragraphs (on_first f (set_text s sh))) = [para_text (f (new_para\<lparr>para_text := s\<rparr>))]"
  by (simp add: on_first_def set_text_def split_lines_plain)

lemma bullet_paragraphs:
  "map para_text (paragraphs (on_last f (add_paragraph sh))) =
     map para_text (paragraphs sh) @ [para_text (f new_para)]"
  by (simp add: on_last_def add_paragraph_def)

lemma build_Inr: "build env = Inr prs \<Longrightarrow> prs = built_deck"
  by (simp add: build_def stages_def built_deck_def split: option.splits)

lemma build_clean: "(\<And>st. raises env st = None) \<Longrightarrow> build env = Inr built_deck"
  by (simp add: build_def stages_def built_deck_def)

lemma create_presentation_Inr:
  assumes "create_presentation env w = Inr w'"
  shows "w' = w\<lparr>files := (files w)(out_path \<mapsto> Pptx built_deck),
                 stdout := stdout w @ success_lines\<rparr>"
proof (cases "build env")
  case (Inl e)
  with assms show ?thesis by (simp add: create_presentation_def)
next
  case (Inr prs)
  then have prs: "prs = built_deck" by (rule build_Inr)
  from assms Inr show ?thesis
    unfolding prs
    by (cases "save_raises env")
       (auto simp: create_presentation_def save_def py_print_def and_then_def out_path_def
             success_lines_def split: option.splits sum.splits)
qed

lemma create_presentation_clean:
  assumes "\<And>st. raises env st = None" and "save_raises env = SaveWorks"
    and "\<And>l. print_raises env l = None"
  shows "create_presentation env w =
           Inr (w\<lparr>files := (files w)(out_path \<mapsto> Pptx built_deck),
                  stdout := stdout w @ success_lines\<rparr>)"
  using build_clean [of env, OF assms(1)] assms(2) assms(3)
  by (simp add: create_presentation_def save_def py_print_def and_then_def out_path_def
        success_lines_def)

lemma good_run: "create_presentation good_env empty_world = Inr done_world"
  by (simp add: create_presentation_clean good_env_def empty_world_def done_world_def)

lemma five_slides: "length (slides built_deck) = 5"
  by (simp add: build_defs)

lemma slide2_texts:
  "length (shapes (slides built_deck ! 1)) = 4"
  "map para_text (paragraphs (shapes (slides built_deck ! 1) ! 2)) =
     ''The Challenge'' # map (\<lambda>c. U_2022 @ '' '' @ c) challenges"
  "map para_text (paragraphs (shapes (slides built_deck ! 1) ! 3)) =
     ''Why Agents + Kiro?'' # map (\<lambda>c. U_2022 @ '' '' @ c) solutions"
  by (simp_all add: build_defs challenges_def solutions_def heading_paragraphs bullet_paragraphs
        newline_def new_para_def)

lemma slide1_title:
  "length (shapes (slides built_deck ! 0)) = 5"
  "kind (shapes (slides built_deck ! 0) ! 1) = TextBox"
  "map para_text (paragraphs (shapes (slides built_deck ! 0) ! 1)) = [''Agentic Workflow Reviewer'']"
  by (simp_all add: build_defs heading_paragraphs newline_def geometry_kept geometry_made)

lemma backgrounds:
  "\<forall>s \<in> set (slides built_deck).
     layout s = 6 \<and> shapes s \<noteq> [] \<and> kind (hd (shapes s)) = AutoShape RECTANGLE \<and>
     shape_left (hd (shapes s)) = 0 \<and> shape_top (hd (shapes s)) = 0 \<and>
     shape_width (hd (shapes s)) = slide_width built_deck \<and>
     shape_height (hd (shapes s)) = slide_height built_deck \<and>
     fill (hd (shapes s)) = Solid (Some BLUE) \<and> line_fill (hd (shapes s)) = Background"
  by (simp add: build_defs features_def positions_def geometry_kept geometry_made fills_made)

lemma canvas_size:
  "slide_width built_deck = 12188952" "slide_height built_deck = 6858000"
  by (simp_all add: build_defs Inches_simps)

subsection \<open>Numerals\<close>

lemma decimal_5: "decimal 5 = ''5''"
  by (simp add: decimal.simps [of 5])

section \<open>The claims\<close>

text \<open>
  C1. If python-pptx cannot be imported, the program still ends without an unhandled
  exception and prints the installation hint. The script does not do this: the imports
  stand at the top of the file, outside the \<open>try\<close> of \<open>main\<close>, so on an installation
  without the package the run ends at line 13 with an uncaught \<open>ModuleNotFoundError\<close>,
  before \<open>main\<close> is defined, and nothing is printed.
\<close>

theorem missing_pptx_is_uncaught:
  "script bare_env empty_world =
     Uncaught (Exn ModuleNotFoundError (''No module named '' @ [CHR 0x27] @ ''pptx'' @ [CHR 0x27]))
       \<lparr>files = Map.empty, stdout = []\<rparr>"
  by (simp add: script_def bare_env_def empty_world_def no_module_pptx_def)

text \<open>
  C2. Every successful run of \<open>create_presentation\<close> writes exactly one file, at the
  fixed relative path \<open>Agentic_Workflow_Reviewer_Presentation.pptx\<close>, and the deck in it
  has exactly five slides: the files after the run are the files before it with that one
  path bound to the deck.
\<close>

theorem one_file_five_slides:
  assumes "create_presentation env w = Inr w'"
  shows "\<exists>prs. files w' = (files w)(''Agentic_Workflow_Reviewer_Presentation.pptx'' \<mapsto> Pptx prs)
           \<and> length (slides prs) = 5"
proof (intro exI conjI)
  show "files w' =
          (files w)(''Agentic_Workflow_Reviewer_Presentation.pptx'' \<mapsto> Pptx built_deck)"
    using create_presentation_Inr [OF assms] by (simp add: out_path_def)
  show "length (slides built_deck) = 5"
    by (rule five_slides)
qed

theorem one_file_five_slides_witness:
  "create_presentation good_env empty_world = Inr done_world \<and>
   (\<exists>prs. files done_world =
            (files empty_world)(''Agentic_Workflow_Reviewer_Presentation.pptx'' \<mapsto> Pptx prs)
          \<and> length (slides prs) = 5)"
  by (rule conjI [OF good_run one_file_five_slides [OF good_run]])

text \<open>
  C3. On the second slide the challenge box holds the heading and then the four
  challenge strings, and the solution box holds the heading and then the four solution
  strings; each string is one paragraph that starts with the bullet and a space, and the
  paragraphs stand in the order of the lists.
\<close>

theorem problem_slide_bullets:
  assumes "create_presentation env w = Inr w'"
  shows "\<exists>prs. files w' out_path = Some (Pptx prs) \<and> length (slides prs) = 5 \<and>
           length (shapes (slides prs ! 1)) = 4 \<and>
           map para_text (paragraphs (shapes (slides prs ! 1) ! 2)) =
             ''The Challenge'' # map (\<lambda>item. U_2022 @ '' '' @ item)
               [''DevOps teams struggle with complex workflow optimization'',
                ''Manual review processes are time-consuming and error-prone'',
                ''Different optimization goals require different expertise'',
                ''No unified system for comprehensive workflow analysis''] \<and>
           map para_text (paragraphs (shapes (slides prs ! 1) ! 3)) =
             ''Why Agents + Kiro?'' # map (\<lambda>item. U_2022 @ '' '' @ item)
               [''Decomposition: Complex analysis '' @ U_2192 @ '' specialized agents'',
                ''Expertise: Each agent focuses on domain knowledge'',
                ''Scalability: Parallel processing + intelligent caching'',
                ''Human-in-the-loop: Interactive goal changes'']"
proof -
  have "files w' out_path = Some (Pptx built_deck)"
    using create_presentation_Inr [OF assms] by simp
  then show ?thesis
    by (intro exI [of _ built_deck] conjI five_slides slide2_texts(1)
          slide2_texts(2) [unfolded challenges_def] slide2_texts(3) [unfolded solutions_def])
qed

theorem problem_slide_bullets_witness:
  "create_presentation good_env empty_world = Inr done_world \<and>
   (\<exists>prs. files done_world out_path = Some (Pptx prs) \<and> length (slides prs) = 5 \<and>
           length (shapes (slides prs ! 1)) = 4 \<and>
           map para_text (paragraphs (shapes (slides prs ! 1) ! 2)) =
             ''The Challenge'' # map (\<lambda>item. U_2022 @ '' '' @ item)
               [''DevOps teams struggle with complex workflow optimization'',
                ''Manual review processes are time-consuming and error-prone'',
                ''Different optimization goals require different expertise'',
                ''No unified system for comprehensive workflow analysis''] \<and>
           map para_text (paragraphs (shapes (slides prs ! 1) ! 3)) =
             ''Why Agents + Kiro?'' # map (\<lambda>item. U_2022 @ '' '' @ item)
               [''Decomposition: Complex analysis '' @ U_2192 @ '' specialized agents'',
                ''Expertise: Each agent focuses on domain knowledge'',
                ''Scalability: Parallel processing + intelligent caching'',
                ''Human-in-the-loop: Interactive goal changes''])"
  by (rule conjI [OF good_run problem_slide_bullets [OF good_run]])

text \<open>
  C4. On every slide of the deck the first shape is a rectangle at the origin, as wide
  and as high as the canvas the deck declares, with a solid fill and no outline.
\<close>

theorem background_covers_canvas:
  assumes "create_presentation env w = Inr w'"
  shows "\<exists>prs. files w' out_path = Some (Pptx prs) \<and> length (slides prs) = 5 \<and>
           (\<forall>s \<in> set (slides prs).
              shapes s \<noteq> [] \<and> kind (hd (shapes s)) = AutoShape RECTANGLE \<and>
              shape_left (hd (shapes s)) = 0 \<and> shape_top (hd (shapes s)) = 0 \<and>
              shape_width (hd (shapes s)) = slide_width prs \<and>
              shape_height (hd (shapes s)) = slide_height prs \<and>
              (\<exists>c. fill (hd (shapes s)) = Solid (Some c)) \<and>
              line_fill (hd (shapes s)) = Background)"
proof -
  have "files w' out_path = Some (Pptx built_deck)"
    using create_presentation_Inr [OF assms] by simp
  moreover have "\<forall>s \<in> set (slides built_deck).
              shapes s \<noteq> [] \<and> kind (hd (shapes s)) = AutoShape RECTANGLE \<and>
              shape_left (hd (shapes s)) = 0 \<and> shape_top (hd (shapes s)) = 0 \<and>
              shape_width (hd (shapes s)) = slide_width built_deck \<and>
              shape_height (hd (shapes s)) = slide_height built_deck \<and>
              (\<exists>c. fill (hd (shapes s)) = Solid (Some c)) \<and>
              line_fill (hd (shapes s)) = Background"
    using backgrounds by simp
  ultimately show ?thesis
    by (intro exI [of _ built_deck] conjI five_slides)
qed

theorem background_covers_canvas_witness:
  "create_presentation good_env empty_world = Inr done_world \<and>
   (\<exists>prs. files done_world out_path = Some (Pptx prs) \<and> length (slides prs) = 5 \<and>
           (\<forall>s \<in> set (slides prs).
              shapes s \<noteq> [] \<and> kind (hd (shapes s)) = AutoShape RECTANGLE \<and>
              shape_left (hd (shapes s)) = 0 \<and> shape_top (hd (shapes s)) = 0 \<and>
              shape_width (hd (shapes s)) = slide_width prs \<and>
              shape_height (hd (shapes s)) = slide_height prs \<and>
              (\<exists>c. fill (hd (shapes s)) = Solid (Some c)) \<and>
              line_fill (hd (shapes s)) = Background))"
  by (rule conjI [OF good_run background_covers_canvas [OF good_run]])

text \<open>
  C5. The title of the first slide, the text box that follows its background, reads
  \<open>Agentic Workflow Reviewer\<close> and nothing else.
\<close>

theorem title_slide_text:
  assumes "create_presentation env w = Inr w'"
  shows "\<exists>prs. files w' out_path = Some (Pptx prs) \<and> length (slides prs) = 5 \<and>
           length (shapes (slides prs ! 0)) = 5 \<and>
           kind (shapes (slides prs ! 0) ! 1) = TextBox \<and>
           map para_text (paragraphs (shapes (slides prs ! 0) ! 1)) =
             [''Agentic Workflow Reviewer'']"
proof -
  have "files w' out_path = Some (Pptx built_deck)"
    using create_presentation_Inr [OF assms] by simp
  then show ?thesis
    by (intro exI [of _ built_deck] conjI five_slides slide1_title)
qed

theorem title_slide_text_witness:
  "create_presentation good_env empty_world = Inr done_world \<and>
   (\<exists>prs. files done_world out_path = Some (Pptx prs) \<and> length (slides prs) = 5 \<and>
           length (shapes (slides prs ! 0)) = 5 \<and>
           kind (shapes (slides prs ! 0) ! 1) = TextBox \<and>
           map para_text (paragraphs (shapes (slides prs ! 0) ! 1)) =
             [''Agentic Workflow Reviewer''])"
  by (rule conjI [OF good_run title_slide_text [OF good_run]])




text \<open>
  C7. Every shape on every slide lies inside the canvas, which is 13.33 inches wide and
  7.5 inches high: its left edge plus its width is at most the canvas width, and its top
  edge plus its height is at most the canvas height.
\<close>

theorem shapes_within_canvas:
  assumes "create_presentation env w = Inr w'"
  shows "\<exists>prs. files w' out_path = Some (Pptx prs) \<and> length (slides prs) = 5 \<and>
           slide_width prs = Inches 13.33 \<and> slide_height prs = Inches 7.5 \<and>
           (\<forall>s \<in> set (slides prs). \<forall>sh \<in> set (shapes s).
              shape_left sh + shape_width sh \<le> slide_width prs \<and>
              shape_top sh + shape_height sh \<le> slide_height prs)"
proof -
  have "files w' out_path = Some (Pptx built_deck)"
    using create_presentation_Inr [OF assms] by simp
  moreover have "slide_width built_deck = Inches 13.33" "slide_height built_deck = Inches 7.5"
    using canvas_size by (simp_all add: Inches_simps)
  ultimately show ?thesis
    by (intro exI [of _ built_deck] conjI five_slides in_bounds)
qed

theorem shapes_within_canvas_witness:
  "create_presentation good_env empty_world = Inr done_world \<and>
   (\<exists>prs. files done_world out_path = Some (Pptx prs) \<and> length (slides prs) = 5 \<and>
           slide_width prs = Inches 13.33 \<and> slide_height prs = Inches 7.5 \<and>
           (\<forall>s \<in> set (slides prs). \<forall>sh \<in> set (shapes s).
              shape_left sh + shape_width sh \<le> slide_width prs \<and>
              shape_top sh + shape_height sh \<le> slide_height prs))"
  by (rule conjI [OF good_run shapes_within_canvas [OF good_run]])

text \<open>
  C8. Two successful runs, whatever the directory and the output they start from, save
  decks with the same number of shapes on each slide and the same text in every
  paragraph.
\<close>

theorem two_runs_same_content:
  assumes "create_presentation env1 w1 = Inr w1'" and "create_presentation env2 w2 = Inr w2'"
  shows "\<exists>d1 d2. files w1' out_path = Some (Pptx d1) \<and> files w2' out_path = Some (Pptx d2) \<and>
           shape_counts d1 = shape_counts d2 \<and> text_content d1 = text_content d2"
proof -
  have "files w1' out_path = Some (Pptx built_deck)"
    using create_presentation_Inr [OF assms(1)] by simp
  moreover have "files w2' out_path = Some (Pptx built_deck)"
    using create_presentation_Inr [OF assms(2)] by simp
  ultimately show ?thesis
    by (intro exI [of _ built_deck] conjI refl)
qed

theorem two_runs_same_content_witness:
  "create_presentation good_env empty_world = Inr done_world \<and>
   create_presentation good_env used_world =
     Inr (used_world\<lparr>files := (files used_world)(out_path \<mapsto> Pptx built_deck),
                     stdout := stdout used_world @ success_lines\<rparr>) \<and>
   (\<exists>d1 d2. files done_world out_path = Some (Pptx d1) \<and>
            files (used_world\<lparr>files := (files used_world)(out_path \<mapsto> Pptx built_deck),
                              stdout := stdout used_world @ success_lines\<rparr>) out_path =
              Some (Pptx d2) \<and>
            shape_counts d1 = shape_counts d2 \<and> text_content d1 = text_content d2)"
proof -
  have again: "create_presentation good_env used_world =
     Inr (used_world\<lparr>files := (files used_world)(out_path \<mapsto> Pptx built_deck),
                     stdout := stdout used_world @ success_lines\<rparr>)"
    by (rule create_presentation_clean) (simp_all add: good_env_def)
  show ?thesis
    by (intro conjI good_run again two_runs_same_content [OF good_run again])
qed

text \<open>
  C9, as amended. Every successful run prints three fixed lines after the save: the
  success message with the name of the file, a line that lists the five slides by name,
  and a closing line. The number of slides is not printed.
\<close>

theorem success_prints_fixed_lines:
  assumes "create_presentation env w = Inr w'"
  shows "stdout w' = stdout w @
     [U_2705 @ '' PowerPoint presentation created: Agentic_Workflow_Reviewer_Presentation.pptx'',
      U_1F4CA @ '' Slides created: Title, Problem Statement, Architecture, Kiro Features, Thank You'',
      U_1F3AF @ '' Ready for Kiro Hackathon presentation!'']"
  using create_presentation_Inr [OF assms] by (simp add: success_lines_def)

theorem success_prints_fixed_lines_witness:
  "create_presentation good_env empty_world = Inr done_world \<and>
   stdout done_world = stdout empty_world @
     [U_2705 @ '' PowerPoint presentation created: Agentic_Workflow_Reviewer_Presentation.pptx'',
      U_1F4CA @ '' Slides created: Title, Problem Statement, Architecture, Kiro Features, Thank You'',
      U_1F3AF @ '' Ready for Kiro Hackathon presentation!'']"
  by (rule conjI [OF good_run success_prints_fixed_lines [OF good_run]])

text \<open>
  C9 as the specification states it, that a successful run prints the slide count, fails:
  the run from an empty directory succeeds, its deck has five slides, and no printed line
  contains the numeral of that count.
\<close>

theorem slide_count_not_printed:
  "create_presentation good_env empty_world = Inr done_world \<and>
   files done_world out_path = Some (Pptx built_deck) \<and>
   length (slides built_deck) = 5 \<and>
   \<not> prints_number (length (slides built_deck)) (stdout done_world)"
proof -
  have saved: "files done_world out_path = Some (Pptx built_deck)"
    by (simp add: done_world_def)
  have silent: "\<not> prints_number (length (slides built_deck)) (stdout done_world)"
    unfolding five_slides
    by (simp add: prints_number_def done_world_def success_lines_def U_2705_def U_1F4CA_def
          U_1F3AF_def decimal_5)
  show ?thesis
    by (intro conjI good_run saved five_slides silent)
qed

text \<open>
  C10. All five slides use layout 6, the blank one, and the background rectangle of each
  is filled with the same colour, RGB(102, 126, 234).
\<close>

theorem same_layout_same_colour:
  assumes "create_presentation env w = Inr w'"
  shows "\<exists>prs. files w' out_path = Some (Pptx prs) \<and> length (slides prs) = 5 \<and>
           (\<forall>s \<in> set (slides prs).
              layout s = 6 \<and> shapes s \<noteq> [] \<and> kind (hd (shapes s)) = AutoShape RECTANGLE \<and>
              fill (hd (shapes s)) = Solid (Some (RGBColor 102 126 234)))"
proof -
  have "files w' out_path = Some (Pptx built_deck)"
    using create_presentation_Inr [OF assms] by simp
  moreover have "\<forall>s \<in> set (slides built_deck).
              layout s = 6 \<and> shapes s \<noteq> [] \<and> kind (hd (shapes s)) = AutoShape RECTANGLE \<and>
              fill (hd (shapes s)) = Solid (Some (RGBColor 102 126 234))"
    using backgrounds by (simp add: BLUE_def)
  ultimately show ?thesis
    by (intro exI [of _ built_deck] conjI five_slides)
qed

theorem same_layout_same_colour_witness:
  "create_presentation good_env empty_world = Inr done_world \<and>
   (\<exists>prs. files done_world out_path = Some (Pptx prs) \<and> length (slides prs) = 5 \<and>
           (\<forall>s \<in> set (slides prs).
              layout s = 6 \<and> shapes s \<noteq> [] \<and> kind (hd (shapes s)) = AutoShape RECTANGLE \<and>
              fill (hd (shapes s)) = Solid (Some (RGBColor 102 126 234))))"
  by (rule conjI [OF good_run same_layout_same_colour [OF good_run]])

end
